theory Spec2Isabelle
  imports Main
begin

section \<open>The schema applier \<^verbatim>\<open>scripts/supabase_setup.py\<close>\<close>

text \<open>
  The script is one function, \<^verbatim>\<open>main\<close>, and the module's last line
  \<^verbatim>\<open>raise SystemExit(main())\<close>. Everything it does is an effect on the outside:
  it reads one environment variable, asks the file system whether the schema file exists,
  reads it, imports the database client, talks to the database and prints. The model
  makes the outside an explicit value (\<open>world\<close>): what each of these calls answers.
  \<open>main\<close> then is a pure function from the world to the list of effects it performs, in
  program order, and to its result: the returned exit code or the exception that leaves it.
\<close>

subsection \<open>Paths\<close>

text \<open>
  An absolute POSIX path is the list of its components below the root:
  \<^verbatim>\<open>/repo/scripts/supabase_setup.py\<close> is \<open>[''repo'', ''scripts'', ''supabase_setup.py'']\<close>.
\<close>

type_synonym path = "string list"

text \<open>\<^verbatim>\<open>str(path)\<close>, as the f-string of line 11 prints it.\<close>

fun render_path :: "path \<Rightarrow> string" where
  "render_path [] = ''/''"
| "render_path [c] = ''/'' @ c"
| "render_path (c # cs) = ''/'' @ c @ render_path cs"

subsection \<open>Exceptions\<close>

text \<open>
  The exceptions that can leave the calls of \<^verbatim>\<open>main\<close>; all of them are subclasses of
  Python's \<^verbatim>\<open>Exception\<close>. \<open>IndexError\<close> is what \<^verbatim>\<open>parents[1]\<close> raises, \<open>OSError\<close> and
  \<open>UnicodeDecodeError\<close> come from \<^verbatim>\<open>read_text\<close>, \<open>ImportError\<close> from the import, and the
  last three are the client's errors (connection or authentication failure, malformed
  SQL, constraint violation).
\<close>

datatype py_error =
    IndexError
  | OSError
  | UnicodeDecodeError
  | ImportError
  | OperationalError
  | ProgrammingError
  | IntegrityError

subsection \<open>The world\<close>

text \<open>
  \<^item> \<open>cwd\<close>: the working directory of the process;
  \<^item> \<open>script_location\<close>: the value of \<^verbatim>\<open>Path(__file__).resolve()\<close>, the absolute location of
    the script itself (pathlib computes it; the model takes its result);
  \<^item> \<open>environ\<close>: the process environment, \<^verbatim>\<open>os.getenv\<close> looks a name up and gives
    \<^verbatim>\<open>None\<close> for a name that is not set;
  \<^item> \<open>path_exists\<close>: the answer of \<^verbatim>\<open>Path.exists()\<close>;
  \<^item> \<open>read_text\<close>: the answer of \<^verbatim>\<open>Path.read_text(encoding="utf-8")\<close>, the decoded text
    or the exception raised;
  \<^item> \<open>import_psycopg\<close>: \<open>None\<close> when \<^verbatim>\<open>import psycopg\<close> succeeds, else the exception;
  \<^item> \<open>db_connect url\<close>, \<open>db_execute url sql\<close>, \<open>db_commit url sql\<close>: \<open>None\<close> when
    the call succeeds, else the exception the client raises.
\<close>

record world =
  cwd :: path
  script_location :: path
  environ :: "string \<rightharpoonup> string"
  path_exists :: "path \<Rightarrow> bool"
  read_text :: "path \<Rightarrow> py_error + string"
  import_psycopg :: "py_error option"
  db_connect :: "string \<Rightarrow> py_error option"
  db_execute :: "string \<Rightarrow> string \<Rightarrow> py_error option"
  db_commit :: "string \<Rightarrow> string \<Rightarrow> py_error option"

subsection \<open>Effects\<close>

text \<open>
  One event per call that reaches outside the program, with the argument the program
  passes. \<open>OpenCursor\<close> is \<^verbatim>\<open>conn.cursor()\<close>, which makes the cursor object of an open
  connection and has no failure of its own in the model. \<open>CloseCursor\<close> and
  \<open>CloseConnection\<close> are the ends of the two \<^verbatim>\<open>with\<close> blocks; the client releases the
  resource there and lets an exception pass.
\<close>

datatype event =
    Getenv string
  | PathExists path
  | ReadText path
  | Print string
  | ImportModule string
  | Connect string
  | OpenCursor
  | Execute string
  | CloseCursor
  | Commit
  | CloseConnection

fun is_db_event :: "event \<Rightarrow> bool" where
  "is_db_event (Connect _) = True"
| "is_db_event OpenCursor = True"
| "is_db_event (Execute _) = True"
| "is_db_event CloseCursor = True"
| "is_db_event Commit = True"
| "is_db_event CloseConnection = True"
| "is_db_event _ = False"

fun is_env_event :: "event \<Rightarrow> bool" where
  "is_env_event (Getenv _) = True"
| "is_env_event _ = False"

fun is_execute :: "event \<Rightarrow> bool" where
  "is_execute (Execute _) = True"
| "is_execute _ = False"

text \<open>What a run printed, line by line.\<close>

fun printed :: "event list \<Rightarrow> string list" where
  "printed [] = []"
| "printed (Print s # es) = s # printed es"
| "printed (_ # es) = printed es"

text \<open>A computation: the events so far and the value or the exception.\<close>

type_synonym 'a run = "event list \<times> (py_error + 'a)"

text \<open>\<open>after es r\<close>: the events \<open>es\<close> happen, then the run \<open>r\<close>.\<close>

fun after :: "event list \<Rightarrow> 'a run \<Rightarrow> 'a run" where
  "after es (t, r) = (es @ t, r)"

subsection \<open>The program\<close>

text \<open>
  Line 8: \<^verbatim>\<open>Path(__file__).resolve().parents[1] / "supabase" / "schema.sql"\<close>.
  \<^verbatim>\<open>parents[0]\<close> is the directory of the script, \<^verbatim>\<open>parents[1]\<close> the directory above
  it; a path with fewer than two components has no \<^verbatim>\<open>parents[1]\<close> and the index raises.
\<close>

definition parents :: "path \<Rightarrow> nat \<Rightarrow> py_error + path" where
  "parents p i = (if i < length p then Inr (take (length p - Suc i) p) else Inl IndexError)"

definition schema_path_of :: "path \<Rightarrow> py_error + path" where
  "schema_path_of loc =
     (case parents loc 1 of
        Inl e \<Rightarrow> Inl e
      | Inr root \<Rightarrow> Inr (root @ [''supabase'', ''schema.sql'']))"

text \<open>Python's truth value of \<^verbatim>\<open>db_url\<close>: \<^verbatim>\<open>None\<close> and the empty string are false.\<close>

fun truthy :: "string option \<Rightarrow> bool" where
  "truthy None = False"
| "truthy (Some s) = (s \<noteq> [])"

text \<open>Lines 17 to 22: the five lines of guidance, then \<^verbatim>\<open>return 2\<close>.\<close>

definition option_a_lines :: "string list" where
  "option_a_lines =
     [CHR 0x0A # ''Option A (automatic): set SUPABASE_DB_URL and re-run:'',
      ''  export SUPABASE_DB_URL='' @ [CHR 0x27]
        @ ''postgres://postgres:<PASSWORD>@db.<project-ref>.supabase.co:5432/postgres''
        @ [CHR 0x27],
      ''  python scripts/supabase_setup.py'']"

definition option_b_lines :: "string list" where
  "option_b_lines =
     [CHR 0x0A # ''Option B (manual): paste the SQL from supabase/schema.sql into the Supabase SQL editor.'']"

definition url_not_set :: "int run" where
  "url_not_set =
     (map Print (''SUPABASE_DB_URL is not set.'' # option_a_lines @ option_b_lines), Inr 2)"

text \<open>Lines 27 to 29.\<close>

definition missing_dependency :: "int run" where
  "missing_dependency =
     ([Print ''Missing dependency: psycopg'',
       Print ''Install with: pip install psycopg[binary]''], Inr 3)"

text \<open>
  Lines 33 to 36, the two nested \<^verbatim>\<open>with\<close> blocks. No \<^verbatim>\<open>try\<close> surrounds them: an
  exception of \<^verbatim>\<open>connect\<close>, \<^verbatim>\<open>execute\<close> or \<^verbatim>\<open>commit\<close> closes the blocks that are open
  and leaves the function.
\<close>

definition apply_sql :: "world \<Rightarrow> string \<Rightarrow> string \<Rightarrow> unit run" where
  "apply_sql w db_url sql =
     after [Connect db_url]
      (case db_connect w db_url of
         Some e \<Rightarrow> ([], Inl e)
       | None \<Rightarrow>
          after [OpenCursor, Execute sql]
           (case db_execute w db_url sql of
              Some e \<Rightarrow> ([CloseCursor, CloseConnection], Inl e)
            | None \<Rightarrow>
               after [CloseCursor, Commit]
                (case db_commit w db_url sql of
                   Some e \<Rightarrow> ([CloseConnection], Inl e)
                 | None \<Rightarrow> ([CloseConnection], Inr ()))))"

text \<open>Lines 24 to 39: the import, the two status lines around the database work.\<close>

definition import_and_apply :: "world \<Rightarrow> string \<Rightarrow> string \<Rightarrow> int run" where
  "import_and_apply w db_url sql =
     after [ImportModule ''psycopg'']
      (case import_psycopg w of
         Some e \<Rightarrow> missing_dependency
       | None \<Rightarrow>
          after [Print ''Applying supabase/schema.sql ...'']
           (case apply_sql w db_url sql of
              (t, Inl e) \<Rightarrow> (t, Inl e)
            | (t, Inr u) \<Rightarrow> (t @ [Print ''Done.''], Inr 0)))"

text \<open>The function \<^verbatim>\<open>main\<close>, lines 6 to 39.\<close>

definition main :: "world \<Rightarrow> int run" where
  "main w =
     (let db_url = environ w ''SUPABASE_DB_URL'' in
      after [Getenv ''SUPABASE_DB_URL'']
       (case schema_path_of (script_location w) of
          Inl e \<Rightarrow> ([], Inl e)
        | Inr schema_path \<Rightarrow>
           after [PathExists schema_path]
            (if \<not> path_exists w schema_path then
               ([Print (''schema.sql not found at: '' @ render_path schema_path)], Inr 1)
             else
               after [ReadText schema_path]
                (case read_text w schema_path of
                   Inl e \<Rightarrow> ([], Inl e)
                 | Inr sql \<Rightarrow>
                    (case db_url of
                       None \<Rightarrow> url_not_set
                     | Some url \<Rightarrow>
                        if url = [] then url_not_set
                        else import_and_apply w url sql)))))"

text \<open>
  Lines 42 and 43: \<^verbatim>\<open>raise SystemExit(main())\<close>. The process ends with the code
  \<^verbatim>\<open>main\<close> returned, or, when an exception left \<^verbatim>\<open>main\<close>, with that exception uncaught:
  the interpreter prints its traceback and ends the process with status 1.
\<close>

datatype outcome = Exited int | Uncaught py_error

definition run_script :: "world \<Rightarrow> event list \<times> outcome" where
  "run_script w =
     (case main w of
        (t, Inl e) \<Rightarrow> (t, Uncaught e)
      | (t, Inr code) \<Rightarrow> (t, Exited code))"

fun exit_status :: "outcome \<Rightarrow> int" where
  "exit_status (Exited code) = code"
| "exit_status (Uncaught e) = 1"

subsection \<open>Example worlds\<close>

text \<open>
  A checkout at \<^verbatim>\<open>/repo\<close> with the schema file of the spec's example, a connection
  string, the client installed and a database that accepts everything.
\<close>

definition repo_schema :: path where
  "repo_schema = [''repo'', ''supabase'', ''schema.sql'']"

definition example_url :: string where
  "example_url = ''postgres://postgres:pw@db.example:5432/postgres''"

definition example_sql :: string where
  "example_sql = ''CREATE TABLE IF NOT EXISTS t(id INT);''"

definition good_world :: world where
  "good_world =
     \<lparr> cwd = [''repo''],
       script_location = [''repo'', ''scripts'', ''supabase_setup.py''],
       environ = [''SUPABASE_DB_URL'' \<mapsto> example_url],
       path_exists = (\<lambda>p. p = repo_schema),
       read_text = (\<lambda>p. if p = repo_schema then Inr example_sql else Inl OSError),
       import_psycopg = None,
       db_connect = (\<lambda>url. None),
       db_execute = (\<lambda>url sql. None),
       db_commit = (\<lambda>url sql. None) \<rparr>"

text \<open>The same checkout, started from another directory.\<close>

definition other_cwd_world :: world where
  "other_cwd_world = good_world \<lparr> cwd := [''tmp''] \<rparr>"

text \<open>Without the schema file.\<close>

definition no_schema_world :: world where
  "no_schema_world = good_world \<lparr> path_exists := (\<lambda>p. False) \<rparr>"

text \<open>With the variable not set, and with the variable set to the empty string.\<close>

definition unset_world :: world where
  "unset_world = good_world \<lparr> environ := Map.empty \<rparr>"

definition empty_url_world :: world where
  "empty_url_world = good_world \<lparr> environ := [''SUPABASE_DB_URL'' \<mapsto> []] \<rparr>"

text \<open>Without the client library.\<close>

definition no_client_world :: world where
  "no_client_world = good_world \<lparr> import_psycopg := Some ImportError \<rparr>"

text \<open>
  A schema file that exists and cannot be read as UTF-8 text: its bytes are not UTF-8
  (the variable not set; the variable set and the client missing), or the path is a
  directory (the variable empty).
\<close>

definition undecodable_world :: world where
  "undecodable_world =
     good_world \<lparr> environ := Map.empty, read_text := (\<lambda>p. Inl UnicodeDecodeError) \<rparr>"

definition undecodable_no_client_world :: world where
  "undecodable_no_client_world =
     good_world \<lparr> read_text := (\<lambda>p. Inl UnicodeDecodeError),
                  import_psycopg := Some ImportError \<rparr>"

definition directory_world :: world where
  "directory_world =
     good_world \<lparr> environ := [''SUPABASE_DB_URL'' \<mapsto> []],
                  read_text := (\<lambda>p. Inl OSError) \<rparr>"

text \<open>A database that refuses the connection, the statement, the commit.\<close>

definition refused_world :: world where
  "refused_world = good_world \<lparr> db_connect := (\<lambda>url. Some OperationalError) \<rparr>"

definition bad_sql_world :: world where
  "bad_sql_world = good_world \<lparr> db_execute := (\<lambda>url sql. Some ProgrammingError) \<rparr>"

definition failed_commit_world :: world where
  "failed_commit_world = good_world \<lparr> db_commit := (\<lambda>url sql. Some IntegrityError) \<rparr>"

section \<open>Properties\<close>

subsection \<open>The runs of \<^verbatim>\<open>main\<close>, case by case\<close>




lemma main_no_parents:
  "schema_path_of (script_location w) = Inl e \<Longrightarrow>
   main w = ([Getenv ''SUPABASE_DB_URL''], Inl e)"
  by (simp add: main_def)

lemma main_missing:
  "schema_path_of (script_location w) = Inr p \<Longrightarrow> \<not> path_exists w p \<Longrightarrow>
   main w = ([Getenv ''SUPABASE_DB_URL'', PathExists p,
              Print (''schema.sql not found at: '' @ render_path p)], Inr 1)"
  by (simp add: main_def)

lemma main_unreadable:
  "schema_path_of (script_location w) = Inr p \<Longrightarrow> path_exists w p \<Longrightarrow>
   read_text w p = Inl e \<Longrightarrow>
   main w = ([Getenv ''SUPABASE_DB_URL'', PathExists p, ReadText p], Inl e)"
  by (simp add: main_def)

lemma main_url_not_set:
  "schema_path_of (script_location w) = Inr p \<Longrightarrow> path_exists w p \<Longrightarrow>
   read_text w p = Inr sql \<Longrightarrow> \<not> truthy (environ w ''SUPABASE_DB_URL'') \<Longrightarrow>
   main w = after [Getenv ''SUPABASE_DB_URL'', PathExists p, ReadText p] url_not_set"
  by (cases "environ w ''SUPABASE_DB_URL''") (simp_all add: main_def url_not_set_def)

lemma main_checked:
  "schema_path_of (script_location w) = Inr p \<Longrightarrow> path_exists w p \<Longrightarrow>
   read_text w p = Inr sql \<Longrightarrow> environ w ''SUPABASE_DB_URL'' = Some url \<Longrightarrow>
   url \<noteq> [] \<Longrightarrow>
   main w = after [Getenv ''SUPABASE_DB_URL'', PathExists p, ReadText p]
              (import_and_apply w url sql)"
  by (cases "import_and_apply w url sql") (simp add: main_def)

lemma apply_sql_cases:
  "apply_sql w url sql =
     (case db_connect w url of
        Some e \<Rightarrow> ([Connect url], Inl e)
      | None \<Rightarrow>
         (case db_execute w url sql of
            Some e \<Rightarrow>
              ([Connect url, OpenCursor, Execute sql, CloseCursor, CloseConnection], Inl e)
          | None \<Rightarrow>
             (case db_commit w url sql of
                Some e \<Rightarrow>
                  ([Connect url, OpenCursor, Execute sql, CloseCursor, Commit,
                    CloseConnection], Inl e)
              | None \<Rightarrow>
                  ([Connect url, OpenCursor, Execute sql, CloseCursor, Commit,
                    CloseConnection], Inr ()))))"
  by (simp add: apply_sql_def split: option.splits)

lemma main_no_client:
  "schema_path_of (script_location w) = Inr p \<Longrightarrow> path_exists w p \<Longrightarrow>
   read_text w p = Inr sql \<Longrightarrow> environ w ''SUPABASE_DB_URL'' = Some url \<Longrightarrow>
   url \<noteq> [] \<Longrightarrow> import_psycopg w = Some e \<Longrightarrow>
   main w = ([Getenv ''SUPABASE_DB_URL'', PathExists p, ReadText p, ImportModule ''psycopg'',
              Print ''Missing dependency: psycopg'',
              Print ''Install with: pip install psycopg[binary]''], Inr 3)"
  by (simp add: main_checked import_and_apply_def missing_dependency_def)

lemma main_applying:
  "schema_path_of (script_location w) = Inr p \<Longrightarrow> path_exists w p \<Longrightarrow>
   read_text w p = Inr sql \<Longrightarrow> environ w ''SUPABASE_DB_URL'' = Some url \<Longrightarrow>
   url \<noteq> [] \<Longrightarrow> import_psycopg w = None \<Longrightarrow>
   main w =
     after [Getenv ''SUPABASE_DB_URL'', PathExists p, ReadText p, ImportModule ''psycopg'',
            Print ''Applying supabase/schema.sql ...'']
       (case apply_sql w url sql of
          (t, Inl e) \<Rightarrow> (t, Inl e)
        | (t, Inr u) \<Rightarrow> (t @ [Print ''Done.''], Inr 0))"
  by (cases "apply_sql w url sql")
     (simp add: main_checked import_and_apply_def split: sum.splits)

text \<open>The example worlds agree on where the schema file is and, but for three, on its text.\<close>

lemma schema_path_of_repo:
  "schema_path_of [''repo'', ''scripts'', ''supabase_setup.py''] = Inr repo_schema"
  by (simp add: schema_path_of_def parents_def repo_schema_def)


lemma example_url_truthy: "example_url \<noteq> []"
  by (simp add: example_url_def)

lemmas example_worlds =
  good_world_def other_cwd_world_def no_schema_world_def unset_world_def empty_url_world_def
  no_client_world_def undecodable_world_def undecodable_no_client_world_def
  directory_world_def refused_world_def bad_sql_world_def failed_commit_world_def

subsection \<open>The successful run\<close>

text \<open>
  C1. When the schema file exists and is readable, the connection string is set and not
  empty, the client imports, and connect, execute and commit succeed, the run is exactly:
  the checks, the status line, connect, one execute of the whole text of the file, one
  commit, the line \<^verbatim>\<open>Done.\<close>; \<^verbatim>\<open>main\<close> returns 0 and the process exits with code 0.
\<close>

theorem success_exits_0:
  assumes "schema_path_of (script_location w) = Inr p"
    and "path_exists w p"
    and "read_text w p = Inr sql"
    and "environ w ''SUPABASE_DB_URL'' = Some url"
    and "url \<noteq> []"
    and "import_psycopg w = None"
    and "db_connect w url = None"
    and "db_execute w url sql = None"
    and "db_commit w url sql = None"
  shows "main w =
           ([Getenv ''SUPABASE_DB_URL'', PathExists p, ReadText p, ImportModule ''psycopg'',
             Print ''Applying supabase/schema.sql ...'',
             Connect url, OpenCursor, Execute sql, CloseCursor, Commit, CloseConnection,
             Print ''Done.''], Inr 0)
       \<and> filter is_execute (fst (main w)) = [Execute sql]
       \<and> count_list (fst (main w)) Commit = 1
       \<and> last (fst (main w)) = Print ''Done.''
       \<and> run_script w = (fst (main w), Exited 0)
       \<and> exit_status (snd (run_script w)) = 0"
  using assms by (simp add: main_applying apply_sql_cases run_script_def)

theorem success_exits_0_witness:
  "schema_path_of (script_location good_world) = Inr repo_schema
   \<and> path_exists good_world repo_schema
   \<and> read_text good_world repo_schema = Inr example_sql
   \<and> environ good_world ''SUPABASE_DB_URL'' = Some example_url
   \<and> example_url \<noteq> []
   \<and> import_psycopg good_world = None
   \<and> db_connect good_world example_url = None
   \<and> db_execute good_world example_url example_sql = None
   \<and> db_commit good_world example_url example_sql = None
   \<and> filter is_execute (fst (main good_world)) = [Execute example_sql]
   \<and> count_list (fst (main good_world)) Commit = 1
   \<and> last (fst (main good_world)) = Print ''Done.''
   \<and> exit_status (snd (run_script good_world)) = 0"
proof -
  have p: "schema_path_of (script_location good_world) = Inr repo_schema"
    by (simp add: good_world_def schema_path_of_repo)
  have x: "path_exists good_world repo_schema"
    and r: "read_text good_world repo_schema = Inr example_sql"
    and u: "environ good_world ''SUPABASE_DB_URL'' = Some example_url"
    and i: "import_psycopg good_world = None"
    and c: "db_connect good_world example_url = None"
    and e: "db_execute good_world example_url example_sql = None"
    and k: "db_commit good_world example_url example_sql = None"
    by (simp_all add: good_world_def)
  from success_exits_0 [OF p x r u example_url_truthy i c e k] p x r u i c e k
    example_url_truthy
  show ?thesis by simp
qed



subsection \<open>The missing schema file\<close>



text \<open>
  C4, as the spec states it, fails: line 7 reads the environment variable before line 10
  tests the file, so the run with the schema file missing does access the environment.
\<close>

theorem missing_schema_reads_environment_counterexample:
  "schema_path_of (script_location no_schema_world) = Inr repo_schema
   \<and> \<not> path_exists no_schema_world repo_schema
   \<and> filter is_env_event (fst (main no_schema_world)) = [Getenv ''SUPABASE_DB_URL'']
   \<and> hd (fst (main no_schema_world)) = Getenv ''SUPABASE_DB_URL''"
proof -
  have p: "schema_path_of (script_location no_schema_world) = Inr repo_schema"
    by (simp add: example_worlds schema_path_of_repo)
  have m: "\<not> path_exists no_schema_world repo_schema"
    by (simp add: example_worlds)
  from main_missing [OF p m] p m show ?thesis
    by simp
qed

text \<open>
  C4, amended. When the schema file does not exist, the run reads the connection-string
  variable once (and nothing else of the environment) but the value read has no
  influence: with the variable changed to any value, or unset, the run of \<^verbatim>\<open>main\<close> and
  the end of the process are the same, so are the exit code and what is printed; and the
  run holds no database event.
\<close>

theorem missing_schema_ignores_environment:
  assumes "schema_path_of (script_location w) = Inr p"
    and "\<not> path_exists w p"
  shows "main (w \<lparr> environ := (environ w)(''SUPABASE_DB_URL'' := v) \<rparr>) = main w
       \<and> run_script (w \<lparr> environ := (environ w)(''SUPABASE_DB_URL'' := v) \<rparr>) = run_script w
       \<and> filter is_env_event (fst (main w)) = [Getenv ''SUPABASE_DB_URL'']
       \<and> filter is_db_event (fst (main w)) = []"
proof -
  let ?w' = "w \<lparr> environ := (environ w)(''SUPABASE_DB_URL'' := v) \<rparr>"
  from assms have p': "schema_path_of (script_location ?w') = Inr p"
    and m': "\<not> path_exists ?w' p"
    by simp_all
  have same: "main ?w' = main w"
    by (simp only: main_missing [OF p' m'] main_missing [OF assms])
  have "filter is_env_event (fst (main w)) = [Getenv ''SUPABASE_DB_URL'']"
    and "filter is_db_event (fst (main w)) = []"
    by (simp_all add: main_missing [OF assms])
  with same show ?thesis
    by (simp add: run_script_def)
qed

theorem missing_schema_ignores_environment_witness:
  "schema_path_of (script_location no_schema_world) = Inr repo_schema
   \<and> \<not> path_exists no_schema_world repo_schema
   \<and> main (no_schema_world
        \<lparr> environ := (environ no_schema_world)(''SUPABASE_DB_URL'' := None) \<rparr>)
       = main no_schema_world
   \<and> run_script (no_schema_world
        \<lparr> environ := (environ no_schema_world)(''SUPABASE_DB_URL'' := None) \<rparr>)
       = run_script no_schema_world
   \<and> filter is_db_event (fst (main no_schema_world)) = []"
proof -
  have p: "schema_path_of (script_location no_schema_world) = Inr repo_schema"
    by (simp add: example_worlds schema_path_of_repo)
  have m: "\<not> path_exists no_schema_world repo_schema"
    by (simp add: example_worlds)
  from missing_schema_ignores_environment [OF p m, of None] p m show ?thesis
    by simp
qed

subsection \<open>The connection string that is not set\<close>




subsection \<open>The client library that is missing\<close>

text \<open>
  C6, as the spec states it, fails for the same order of lines 14 and 24: a schema file
  that exists and cannot be decoded ends the run in the exception of \<^verbatim>\<open>read_text\<close>
  before the import is tried, so with the variable set and the client missing the exit
  code is not 3 and no installation instruction is printed.
\<close>

theorem no_client_unreadable_schema_counterexample:
  "schema_path_of (script_location undecodable_no_client_world) = Inr repo_schema
   \<and> path_exists undecodable_no_client_world repo_schema
   \<and> environ undecodable_no_client_world ''SUPABASE_DB_URL'' = Some example_url
   \<and> example_url \<noteq> []
   \<and> import_psycopg undecodable_no_client_world = Some ImportError
   \<and> run_script undecodable_no_client_world =
       ([Getenv ''SUPABASE_DB_URL'', PathExists repo_schema, ReadText repo_schema],
        Uncaught UnicodeDecodeError)
   \<and> snd (main undecodable_no_client_world) \<noteq> Inr 3
   \<and> printed (fst (main undecodable_no_client_world)) = []"
proof -
  have p: "schema_path_of (script_location undecodable_no_client_world) = Inr repo_schema"
    by (simp add: example_worlds schema_path_of_repo)
  have x: "path_exists undecodable_no_client_world repo_schema"
    and r: "read_text undecodable_no_client_world repo_schema = Inl UnicodeDecodeError"
    and u: "environ undecodable_no_client_world ''SUPABASE_DB_URL'' = Some example_url"
    and i: "import_psycopg undecodable_no_client_world = Some ImportError"
    by (simp_all add: example_worlds)
  from main_unreadable [OF p x r] p x u i example_url_truthy show ?thesis
    by (simp add: run_script_def)
qed

text \<open>
  C6, amended. When the schema file exists and is read as UTF-8 text, the connection
  string is set and not empty, and the import of the client raises, \<^verbatim>\<open>main\<close> returns 3
  and the process exits with code 3; the run prints the missing dependency and the
  \<^verbatim>\<open>pip install\<close> line; and it holds no database event.
\<close>

theorem no_client_exits_3:
  assumes "schema_path_of (script_location w) = Inr p"
    and "path_exists w p"
    and "read_text w p = Inr sql"
    and "environ w ''SUPABASE_DB_URL'' = Some url"
    and "url \<noteq> []"
    and "import_psycopg w = Some e"
  shows "main w =
           ([Getenv ''SUPABASE_DB_URL'', PathExists p, ReadText p, ImportModule ''psycopg'',
             Print ''Missing dependency: psycopg'',
             Print ''Install with: pip install psycopg[binary]''], Inr 3)
       \<and> run_script w = (fst (main w), Exited 3)
       \<and> exit_status (snd (run_script w)) = 3
       \<and> printed (fst (main w)) =
           [''Missing dependency: psycopg'', ''Install with: pip install psycopg[binary]'']
       \<and> filter is_db_event (fst (main w)) = []"
  by (simp add: main_no_client [OF assms] run_script_def)

theorem no_client_exits_3_witness:
  "schema_path_of (script_location no_client_world) = Inr repo_schema
   \<and> path_exists no_client_world repo_schema
   \<and> read_text no_client_world repo_schema = Inr example_sql
   \<and> environ no_client_world ''SUPABASE_DB_URL'' = Some example_url
   \<and> example_url \<noteq> []
   \<and> import_psycopg no_client_world = Some ImportError
   \<and> exit_status (snd (run_script no_client_world)) = 3
   \<and> printed (fst (main no_client_world)) =
       [''Missing dependency: psycopg'', ''Install with: pip install psycopg[binary]'']
   \<and> filter is_db_event (fst (main no_client_world)) = []"
proof -
  have p: "schema_path_of (script_location no_client_world) = Inr repo_schema"
    by (simp add: example_worlds schema_path_of_repo)
  have x: "path_exists no_client_world repo_schema"
    and r: "read_text no_client_world repo_schema = Inr example_sql"
    and u: "environ no_client_world ''SUPABASE_DB_URL'' = Some example_url"
    and i: "import_psycopg no_client_world = Some ImportError"
    by (simp_all add: example_worlds)
  from no_client_exits_3 [OF p x r u example_url_truthy i] p x r u i example_url_truthy
  show ?thesis by simp
qed

subsection \<open>The order of the checks\<close>

text \<open>
  Where an event stands in a run decides what came before it. The three lemmas read the
  run of \<^verbatim>\<open>main\<close> up to the guidance for the unset variable, up to the import, and up to
  the connection.
\<close>

lemma before_not_set_line:
  assumes "fst (main w) = pre @ Print ''SUPABASE_DB_URL is not set.'' # post"
  shows "\<exists>p sql. schema_path_of (script_location w) = Inr p \<and> path_exists w p
           \<and> read_text w p = Inr sql
           \<and> pre = [Getenv ''SUPABASE_DB_URL'', PathExists p, ReadText p]"
  using assms
  by (auto simp: main_def import_and_apply_def apply_sql_cases url_not_set_def
      missing_dependency_def Let_def Cons_eq_append_conv option_a_lines_def option_b_lines_def
      split: sum.splits option.splits if_splits prod.splits)

lemma before_import:
  assumes "fst (main w) = pre @ ImportModule m # post"
  shows "\<exists>p sql. schema_path_of (script_location w) = Inr p \<and> path_exists w p
           \<and> read_text w p = Inr sql \<and> truthy (environ w ''SUPABASE_DB_URL'')
           \<and> pre = [Getenv ''SUPABASE_DB_URL'', PathExists p, ReadText p]"
  using assms
  by (auto simp: main_def import_and_apply_def apply_sql_cases url_not_set_def
      missing_dependency_def Let_def Cons_eq_append_conv option_a_lines_def option_b_lines_def
      split: sum.splits option.splits if_splits prod.splits)

lemma before_connect:
  assumes "fst (main w) = pre @ Connect u # post"
  shows "\<exists>p sql. schema_path_of (script_location w) = Inr p \<and> path_exists w p
           \<and> read_text w p = Inr sql
           \<and> environ w ''SUPABASE_DB_URL'' = Some u \<and> u \<noteq> []
           \<and> import_psycopg w = None
           \<and> pre = [Getenv ''SUPABASE_DB_URL'', PathExists p, ReadText p,
                    ImportModule ''psycopg'', Print ''Applying supabase/schema.sql ...'']"
  using assms
  by (auto simp: main_def import_and_apply_def apply_sql_cases url_not_set_def
      missing_dependency_def Let_def Cons_eq_append_conv option_a_lines_def option_b_lines_def
      split: sum.splits option.splits if_splits prod.splits)

text \<open>
  C7, as the spec states it, fails in its last part: with the file existing and the
  connection string unset (here: empty) the exit code is not 2 when the file cannot be
  read (here the path is a directory): the read of line 14 stands between the two checks.
\<close>

theorem unset_url_directory_counterexample:
  "schema_path_of (script_location directory_world) = Inr repo_schema
   \<and> path_exists directory_world repo_schema
   \<and> environ directory_world ''SUPABASE_DB_URL'' = Some []
   \<and> run_script directory_world =
       ([Getenv ''SUPABASE_DB_URL'', PathExists repo_schema, ReadText repo_schema],
        Uncaught OSError)
   \<and> snd (run_script directory_world) \<noteq> Exited 2"
proof -
  have p: "schema_path_of (script_location directory_world) = Inr repo_schema"
    by (simp add: example_worlds schema_path_of_repo)
  have x: "path_exists directory_world repo_schema"
    and r: "read_text directory_world repo_schema = Inl OSError"
    and u: "environ directory_world ''SUPABASE_DB_URL'' = Some []"
    by (simp_all add: example_worlds)
  from main_unreadable [OF p x r] p x u show ?thesis
    by (simp add: run_script_def)
qed

text \<open>
  C7, amended. The checks are ordered: file existence, then (after the file is read)
  the presence of the connection string, then the import of the client, then the
  connection.
  \<^item> If the file is missing, the exit code is 1 whatever the environment and whether or
    not the client can be imported.
  \<^item> If the file exists and is read as UTF-8 text and the connection string is unset or
    empty, the exit code is 2 whether or not the client can be imported.
  \<^item> The guidance for the unset variable is printed only after the file was found and
    read; the import is tried only after that and with the connection string present;
    a connection is attempted only after the file was found and read, the connection
    string was present and the import succeeded. In each case the events before are
    exactly the earlier checks, in this order.
\<close>

theorem checks_are_ordered:
  "(schema_path_of (script_location w) = Inr p \<and> \<not> path_exists w p \<longrightarrow>
      snd (run_script (w \<lparr> environ := env, import_psycopg := imp \<rparr>)) = Exited 1)
   \<and> (schema_path_of (script_location w) = Inr p \<and> path_exists w p
        \<and> read_text w p = Inr sql \<and> \<not> truthy (environ w ''SUPABASE_DB_URL'') \<longrightarrow>
      snd (run_script (w \<lparr> import_psycopg := imp \<rparr>)) = Exited 2)
   \<and> (fst (main w) = pre @ Print ''SUPABASE_DB_URL is not set.'' # post \<longrightarrow>
      (\<exists>q text. schema_path_of (script_location w) = Inr q \<and> path_exists w q
         \<and> read_text w q = Inr text
         \<and> pre = [Getenv ''SUPABASE_DB_URL'', PathExists q, ReadText q]))
   \<and> (fst (main w) = pre @ ImportModule m # post \<longrightarrow>
      (\<exists>q text. schema_path_of (script_location w) = Inr q \<and> path_exists w q
         \<and> read_text w q = Inr text \<and> truthy (environ w ''SUPABASE_DB_URL'')
         \<and> pre = [Getenv ''SUPABASE_DB_URL'', PathExists q, ReadText q]))
   \<and> (fst (main w) = pre @ Connect u # post \<longrightarrow>
      (\<exists>q text. schema_path_of (script_location w) = Inr q \<and> path_exists w q
         \<and> read_text w q = Inr text
         \<and> environ w ''SUPABASE_DB_URL'' = Some u \<and> u \<noteq> []
         \<and> import_psycopg w = None
         \<and> pre = [Getenv ''SUPABASE_DB_URL'', PathExists q, ReadText q,
                  ImportModule ''psycopg'', Print ''Applying supabase/schema.sql ...'']))"
proof (intro conjI impI)
  assume a: "schema_path_of (script_location w) = Inr p \<and> \<not> path_exists w p"
  let ?w' = "w \<lparr> environ := env, import_psycopg := imp \<rparr>"
  from a have "schema_path_of (script_location ?w') = Inr p" and "\<not> path_exists ?w' p"
    by simp_all
  then show "snd (run_script ?w') = Exited 1"
    by (simp add: main_missing run_script_def)
next
  assume a: "schema_path_of (script_location w) = Inr p \<and> path_exists w p
               \<and> read_text w p = Inr sql \<and> \<not> truthy (environ w ''SUPABASE_DB_URL'')"
  let ?w' = "w \<lparr> import_psycopg := imp \<rparr>"
  from a have "schema_path_of (script_location ?w') = Inr p" and "path_exists ?w' p"
    and "read_text ?w' p = Inr sql" and "\<not> truthy (environ ?w' ''SUPABASE_DB_URL'')"
    by simp_all
  then have "main ?w' =
               after [Getenv ''SUPABASE_DB_URL'', PathExists p, ReadText p] url_not_set"
    by (rule main_url_not_set)
  then show "snd (run_script ?w') = Exited 2"
    by (simp add: run_script_def url_not_set_def)
next
  assume "fst (main w) = pre @ Print ''SUPABASE_DB_URL is not set.'' # post"
  then show "\<exists>q text. schema_path_of (script_location w) = Inr q \<and> path_exists w q
               \<and> read_text w q = Inr text
               \<and> pre = [Getenv ''SUPABASE_DB_URL'', PathExists q, ReadText q]"
    by (rule before_not_set_line)
next
  assume "fst (main w) = pre @ ImportModule m # post"
  then show "\<exists>q text. schema_path_of (script_location w) = Inr q \<and> path_exists w q
               \<and> read_text w q = Inr text \<and> truthy (environ w ''SUPABASE_DB_URL'')
               \<and> pre = [Getenv ''SUPABASE_DB_URL'', PathExists q, ReadText q]"
    by (rule before_import)
next
  assume "fst (main w) = pre @ Connect u # post"
  then show "\<exists>q text. schema_path_of (script_location w) = Inr q \<and> path_exists w q
               \<and> read_text w q = Inr text
               \<and> environ w ''SUPABASE_DB_URL'' = Some u \<and> u \<noteq> []
               \<and> import_psycopg w = None
               \<and> pre = [Getenv ''SUPABASE_DB_URL'', PathExists q, ReadText q,
                        ImportModule ''psycopg'', Print ''Applying supabase/schema.sql ...'']"
    by (rule before_connect)
qed

text \<open>The runs of four example worlds, used below.\<close>

lemma main_unset_world:
  "main unset_world =
     ([Getenv ''SUPABASE_DB_URL'', PathExists repo_schema, ReadText repo_schema]
        @ Print ''SUPABASE_DB_URL is not set.'' # map Print (option_a_lines @ option_b_lines),
      Inr 2)"
proof -
  have "schema_path_of (script_location unset_world) = Inr repo_schema"
    by (simp add: example_worlds schema_path_of_repo)
  moreover have "path_exists unset_world repo_schema"
    and "read_text unset_world repo_schema = Inr example_sql"
    and "\<not> truthy (environ unset_world ''SUPABASE_DB_URL'')"
    by (simp_all add: example_worlds)
  ultimately have "main unset_world =
      after [Getenv ''SUPABASE_DB_URL'', PathExists repo_schema, ReadText repo_schema] url_not_set"
    by (rule main_url_not_set)
  then show ?thesis
    by (simp add: url_not_set_def)
qed

lemma main_no_client_world:
  "main no_client_world =
     ([Getenv ''SUPABASE_DB_URL'', PathExists repo_schema, ReadText repo_schema]
        @ ImportModule ''psycopg''
          # [Print ''Missing dependency: psycopg'',
             Print ''Install with: pip install psycopg[binary]''],
      Inr 3)"
proof -
  have "schema_path_of (script_location no_client_world) = Inr repo_schema"
    by (simp add: example_worlds schema_path_of_repo)
  moreover have "path_exists no_client_world repo_schema"
    and "read_text no_client_world repo_schema = Inr example_sql"
    and "environ no_client_world ''SUPABASE_DB_URL'' = Some example_url"
    and "example_url \<noteq> []"
    and "import_psycopg no_client_world = Some ImportError"
    by (simp_all add: example_worlds example_url_truthy)
  ultimately show ?thesis
    by (simp add: main_no_client)
qed

lemma main_example_database:
  assumes "script_location w = [''repo'', ''scripts'', ''supabase_setup.py'']"
    and "path_exists w repo_schema"
    and "read_text w repo_schema = Inr example_sql"
    and "environ w ''SUPABASE_DB_URL'' = Some example_url"
    and "import_psycopg w = None"
  shows "main w =
     after [Getenv ''SUPABASE_DB_URL'', PathExists repo_schema, ReadText repo_schema,
            ImportModule ''psycopg'', Print ''Applying supabase/schema.sql ...'']
       (case apply_sql w example_url example_sql of
          (t, Inl e) \<Rightarrow> (t, Inl e)
        | (t, Inr u) \<Rightarrow> (t @ [Print ''Done.''], Inr 0))"
proof -
  from assms(1) have "schema_path_of (script_location w) = Inr repo_schema"
    by (simp add: schema_path_of_repo)
  then show ?thesis
    using assms(2-4) example_url_truthy assms(5) by (rule main_applying)
qed

lemma main_good_world:
  "main good_world =
     ([Getenv ''SUPABASE_DB_URL'', PathExists repo_schema, ReadText repo_schema,
       ImportModule ''psycopg'', Print ''Applying supabase/schema.sql ...'']
        @ Connect example_url
          # [OpenCursor, Execute example_sql, CloseCursor, Commit, CloseConnection,
             Print ''Done.''],
      Inr 0)"
proof -
  have "main good_world =
     after [Getenv ''SUPABASE_DB_URL'', PathExists repo_schema, ReadText repo_schema,
            ImportModule ''psycopg'', Print ''Applying supabase/schema.sql ...'']
       (case apply_sql good_world example_url example_sql of
          (t, Inl e) \<Rightarrow> (t, Inl e)
        | (t, Inr u) \<Rightarrow> (t @ [Print ''Done.''], Inr 0))"
    by (rule main_example_database) (simp_all add: example_worlds)
  moreover have "db_connect good_world example_url = None"
    and "db_execute good_world example_url example_sql = None"
    and "db_commit good_world example_url example_sql = None"
    by (simp_all add: example_worlds)
  ultimately show ?thesis
    by (simp add: apply_sql_cases)
qed

theorem checks_are_ordered_witness:
  "schema_path_of (script_location no_schema_world) = Inr repo_schema
   \<and> \<not> path_exists no_schema_world repo_schema
   \<and> snd (run_script (no_schema_world
            \<lparr> environ := Map.empty, import_psycopg := Some ImportError \<rparr>)) = Exited 1
   \<and> schema_path_of (script_location unset_world) = Inr repo_schema
   \<and> path_exists unset_world repo_schema
   \<and> read_text unset_world repo_schema = Inr example_sql
   \<and> \<not> truthy (environ unset_world ''SUPABASE_DB_URL'')
   \<and> snd (run_script (unset_world \<lparr> import_psycopg := Some ImportError \<rparr>)) = Exited 2
   \<and> fst (main unset_world) =
       [Getenv ''SUPABASE_DB_URL'', PathExists repo_schema, ReadText repo_schema]
         @ Print ''SUPABASE_DB_URL is not set.'' # map Print (option_a_lines @ option_b_lines)
   \<and> fst (main no_client_world) =
       [Getenv ''SUPABASE_DB_URL'', PathExists repo_schema, ReadText repo_schema]
         @ ImportModule ''psycopg''
           # [Print ''Missing dependency: psycopg'',
              Print ''Install with: pip install psycopg[binary]'']
   \<and> truthy (environ no_client_world ''SUPABASE_DB_URL'')
   \<and> fst (main good_world) =
       [Getenv ''SUPABASE_DB_URL'', PathExists repo_schema, ReadText repo_schema,
        ImportModule ''psycopg'', Print ''Applying supabase/schema.sql ...'']
         @ Connect example_url
           # [OpenCursor, Execute example_sql, CloseCursor, Commit, CloseConnection,
              Print ''Done.'']
   \<and> path_exists good_world repo_schema
   \<and> environ good_world ''SUPABASE_DB_URL'' = Some example_url
   \<and> import_psycopg good_world = None"
proof -
  have p1: "schema_path_of (script_location no_schema_world) = Inr repo_schema"
    and p2: "schema_path_of (script_location unset_world) = Inr repo_schema"
    and p3: "schema_path_of (script_location no_client_world) = Inr repo_schema"
    and p4: "schema_path_of (script_location good_world) = Inr repo_schema"
    by (simp_all add: example_worlds schema_path_of_repo)
  have m1: "\<not> path_exists no_schema_world repo_schema"
    and x2: "path_exists unset_world repo_schema"
    and r2: "read_text unset_world repo_schema = Inr example_sql"
    and u2: "\<not> truthy (environ unset_world ''SUPABASE_DB_URL'')"
    by (simp_all add: example_worlds)
  have t3: "fst (main unset_world) =
       [Getenv ''SUPABASE_DB_URL'', PathExists repo_schema, ReadText repo_schema]
         @ Print ''SUPABASE_DB_URL is not set.'' # map Print (option_a_lines @ option_b_lines)"
    by (simp only: main_unset_world fst_conv)
  have t4: "fst (main no_client_world) =
       [Getenv ''SUPABASE_DB_URL'', PathExists repo_schema, ReadText repo_schema]
         @ ImportModule ''psycopg''
           # [Print ''Missing dependency: psycopg'',
              Print ''Install with: pip install psycopg[binary]'']"
    by (simp only: main_no_client_world fst_conv)
  have t5: "fst (main good_world) =
       [Getenv ''SUPABASE_DB_URL'', PathExists repo_schema, ReadText repo_schema,
        ImportModule ''psycopg'', Print ''Applying supabase/schema.sql ...'']
         @ Connect example_url
           # [OpenCursor, Execute example_sql, CloseCursor, Commit, CloseConnection,
              Print ''Done.'']"
    by (simp only: main_good_world fst_conv)
  have a: "snd (run_script (no_schema_world
              \<lparr> environ := Map.empty, import_psycopg := Some ImportError \<rparr>)) = Exited 1"
    using checks_are_ordered [where w = no_schema_world and p = repo_schema
        and env = Map.empty and imp = "Some ImportError"] p1 m1
    by blast
  have b: "snd (run_script (unset_world \<lparr> import_psycopg := Some ImportError \<rparr>)) = Exited 2"
    using checks_are_ordered [where w = unset_world and p = repo_schema
        and sql = example_sql and imp = "Some ImportError"] p2 x2 r2 u2
    by blast
  have c: "\<exists>q text. schema_path_of (script_location unset_world) = Inr q
             \<and> path_exists unset_world q \<and> read_text unset_world q = Inr text
             \<and> [Getenv ''SUPABASE_DB_URL'', PathExists repo_schema, ReadText repo_schema]
                 = [Getenv ''SUPABASE_DB_URL'', PathExists q, ReadText q]"
    using checks_are_ordered [where w = unset_world
        and pre = "[Getenv ''SUPABASE_DB_URL'', PathExists repo_schema, ReadText repo_schema]"
        and post = "map Print (option_a_lines @ option_b_lines)"] t3
    by blast
  have d: "\<exists>q text. schema_path_of (script_location no_client_world) = Inr q
             \<and> path_exists no_client_world q \<and> read_text no_client_world q = Inr text
             \<and> truthy (environ no_client_world ''SUPABASE_DB_URL'')
             \<and> [Getenv ''SUPABASE_DB_URL'', PathExists repo_schema, ReadText repo_schema]
                 = [Getenv ''SUPABASE_DB_URL'', PathExists q, ReadText q]"
    using checks_are_ordered [where w = no_client_world
        and pre = "[Getenv ''SUPABASE_DB_URL'', PathExists repo_schema, ReadText repo_schema]"
        and m = "''psycopg''"
        and post = "[Print ''Missing dependency: psycopg'',
                     Print ''Install with: pip install psycopg[binary]'']"] t4
    by blast
  have e: "\<exists>q text. schema_path_of (script_location good_world) = Inr q
             \<and> path_exists good_world q \<and> read_text good_world q = Inr text
             \<and> environ good_world ''SUPABASE_DB_URL'' = Some example_url
             \<and> example_url \<noteq> []
             \<and> import_psycopg good_world = None
             \<and> [Getenv ''SUPABASE_DB_URL'', PathExists repo_schema, ReadText repo_schema,
                 ImportModule ''psycopg'', Print ''Applying supabase/schema.sql ...'']
                 = [Getenv ''SUPABASE_DB_URL'', PathExists q, ReadText q,
                    ImportModule ''psycopg'', Print ''Applying supabase/schema.sql ...'']"
    using checks_are_ordered [where w = good_world and u = example_url
        and pre = "[Getenv ''SUPABASE_DB_URL'', PathExists repo_schema, ReadText repo_schema,
                    ImportModule ''psycopg'', Print ''Applying supabase/schema.sql ...'']"
        and post = "[OpenCursor, Execute example_sql, CloseCursor, Commit, CloseConnection,
                     Print ''Done.'']"] t5
    by blast
  from d have d': "truthy (environ no_client_world ''SUPABASE_DB_URL'')"
    by blast
  from e have e': "path_exists good_world repo_schema
      \<and> environ good_world ''SUPABASE_DB_URL'' = Some example_url
      \<and> import_psycopg good_world = None"
    by auto
  from c have c': "path_exists unset_world repo_schema"
    by auto
  from p1 m1 a p2 c' r2 u2 b t3 t4 d' t5 e' show ?thesis
    by blast
qed

subsection \<open>Failures of the database layer\<close>

text \<open>
  C8. When all three checks pass and \<^verbatim>\<open>connect\<close>, \<^verbatim>\<open>execute\<close> or \<^verbatim>\<open>commit\<close> raises, the
  exception is not caught: it leaves \<^verbatim>\<open>main\<close>, which returns no code, and ends the process
  uncaught with a status that is not 0. The program prints its first status line and
  nothing more: no \<^verbatim>\<open>Done.\<close>, no message about the failure.
\<close>

theorem database_errors_propagate:
  assumes "schema_path_of (script_location w) = Inr p"
    and "path_exists w p"
    and "read_text w p = Inr sql"
    and "environ w ''SUPABASE_DB_URL'' = Some url"
    and "url \<noteq> []"
    and "import_psycopg w = None"
    and "db_connect w url = Some e
         \<or> db_connect w url = None \<and> db_execute w url sql = Some e
         \<or> db_connect w url = None \<and> db_execute w url sql = None
             \<and> db_commit w url sql = Some e"
  shows "snd (main w) = Inl e
       \<and> snd (run_script w) = Uncaught e
       \<and> exit_status (snd (run_script w)) \<noteq> 0
       \<and> printed (fst (main w)) = [''Applying supabase/schema.sql ...'']
       \<and> Print ''Done.'' \<notin> set (fst (main w))"
proof -
  note m = main_applying [OF assms(1-6)]
  from assms(7) consider
      (connect) "db_connect w url = Some e"
    | (execute) "db_connect w url = None" "db_execute w url sql = Some e"
    | (commit) "db_connect w url = None" "db_execute w url sql = None"
        "db_commit w url sql = Some e"
    by auto
  then show ?thesis
  proof cases
    case connect
    then show ?thesis by (simp add: m apply_sql_cases run_script_def)
  next
    case execute
    then show ?thesis by (simp add: m apply_sql_cases run_script_def)
  next
    case commit
    then show ?thesis by (simp add: m apply_sql_cases run_script_def)
  qed
qed

theorem database_errors_propagate_witness:
  "schema_path_of (script_location refused_world) = Inr repo_schema
   \<and> path_exists refused_world repo_schema
   \<and> read_text refused_world repo_schema = Inr example_sql
   \<and> environ refused_world ''SUPABASE_DB_URL'' = Some example_url
   \<and> example_url \<noteq> []
   \<and> import_psycopg refused_world = None
   \<and> db_connect refused_world example_url = Some OperationalError
   \<and> snd (run_script refused_world) = Uncaught OperationalError
   \<and> exit_status (snd (run_script refused_world)) \<noteq> 0
   \<and> schema_path_of (script_location bad_sql_world) = Inr repo_schema
   \<and> path_exists bad_sql_world repo_schema
   \<and> read_text bad_sql_world repo_schema = Inr example_sql
   \<and> environ bad_sql_world ''SUPABASE_DB_URL'' = Some example_url
   \<and> import_psycopg bad_sql_world = None
   \<and> db_connect bad_sql_world example_url = None
   \<and> db_execute bad_sql_world example_url example_sql = Some ProgrammingError
   \<and> snd (run_script bad_sql_world) = Uncaught ProgrammingError
   \<and> exit_status (snd (run_script bad_sql_world)) \<noteq> 0
   \<and> schema_path_of (script_location failed_commit_world) = Inr repo_schema
   \<and> path_exists failed_commit_world repo_schema
   \<and> read_text failed_commit_world repo_schema = Inr example_sql
   \<and> environ failed_commit_world ''SUPABASE_DB_URL'' = Some example_url
   \<and> import_psycopg failed_commit_world = None
   \<and> db_connect failed_commit_world example_url = None
   \<and> db_execute failed_commit_world example_url example_sql = None
   \<and> db_commit failed_commit_world example_url example_sql = Some IntegrityError
   \<and> snd (run_script failed_commit_world) = Uncaught IntegrityError
   \<and> exit_status (snd (run_script failed_commit_world)) \<noteq> 0"
proof -
  have p1: "schema_path_of (script_location refused_world) = Inr repo_schema"
    and p2: "schema_path_of (script_location bad_sql_world) = Inr repo_schema"
    and p3: "schema_path_of (script_location failed_commit_world) = Inr repo_schema"
    by (simp_all add: example_worlds schema_path_of_repo)
  have x1: "path_exists refused_world repo_schema"
    and r1: "read_text refused_world repo_schema = Inr example_sql"
    and u1: "environ refused_world ''SUPABASE_DB_URL'' = Some example_url"
    and i1: "import_psycopg refused_world = None"
    and c1: "db_connect refused_world example_url = Some OperationalError"
    by (simp_all add: example_worlds)
  have x2: "path_exists bad_sql_world repo_schema"
    and r2: "read_text bad_sql_world repo_schema = Inr example_sql"
    and u2: "environ bad_sql_world ''SUPABASE_DB_URL'' = Some example_url"
    and i2: "import_psycopg bad_sql_world = None"
    and c2: "db_connect bad_sql_world example_url = None"
    and e2: "db_execute bad_sql_world example_url example_sql = Some ProgrammingError"
    by (simp_all add: example_worlds)
  have x3: "path_exists failed_commit_world repo_schema"
    and r3: "read_text failed_commit_world repo_schema = Inr example_sql"
    and u3: "environ failed_commit_world ''SUPABASE_DB_URL'' = Some example_url"
    and i3: "import_psycopg failed_commit_world = None"
    and c3: "db_connect failed_commit_world example_url = None"
    and e3: "db_execute failed_commit_world example_url example_sql = None"
    and k3: "db_commit failed_commit_world example_url example_sql = Some IntegrityError"
    by (simp_all add: example_worlds)
  have d1: "db_connect refused_world example_url = Some OperationalError
         \<or> db_connect refused_world example_url = None
             \<and> db_execute refused_world example_url example_sql = Some OperationalError
         \<or> db_connect refused_world example_url = None
             \<and> db_execute refused_world example_url example_sql = None
             \<and> db_commit refused_world example_url example_sql = Some OperationalError"
    using c1 by simp
  have d2: "db_connect bad_sql_world example_url = Some ProgrammingError
         \<or> db_connect bad_sql_world example_url = None
             \<and> db_execute bad_sql_world example_url example_sql = Some ProgrammingError
         \<or> db_connect bad_sql_world example_url = None
             \<and> db_execute bad_sql_world example_url example_sql = None
             \<and> db_commit bad_sql_world example_url example_sql = Some ProgrammingError"
    using c2 e2 by simp
  have d3: "db_connect failed_commit_world example_url = Some IntegrityError
         \<or> db_connect failed_commit_world example_url = None
             \<and> db_execute failed_commit_world example_url example_sql = Some IntegrityError
         \<or> db_connect failed_commit_world example_url = None
             \<and> db_execute failed_commit_world example_url example_sql = None
             \<and> db_commit failed_commit_world example_url example_sql = Some IntegrityError"
    using c3 e3 k3 by simp
  from database_errors_propagate [OF p1 x1 r1 u1 example_url_truthy i1 d1]
    database_errors_propagate [OF p2 x2 r2 u2 example_url_truthy i2 d2]
    database_errors_propagate [OF p3 x3 r3 u3 example_url_truthy i3 d3]
    p1 x1 r1 u1 i1 c1 p2 x2 r2 u2 i2 c2 e2 p3 x3 r3 u3 i3 c3 e3 k3 example_url_truthy
  show ?thesis by simp
qed

subsection \<open>Where the schema file is looked for\<close>

text \<open>
  C9. The schema path is a function of the location of the script alone: two runs whose
  script location is the same compute the same path (or both fail to), whatever their
  working directories and the rest of their worlds, and the paths they test for
  existence are the same. For a script at \<open>root/dir/file\<close> the path is
  \<open>root/supabase/schema.sql\<close>: the parent of the script's directory, then the fixed
  relative path.
\<close>

theorem schema_path_from_script_location:
  assumes "script_location w1 = script_location w2"
  shows "schema_path_of (script_location w1) = schema_path_of (script_location w2)
       \<and> (PathExists q1 \<in> set (fst (main w1)) \<and> PathExists q2 \<in> set (fst (main w2))
            \<longrightarrow> q1 = q2)
       \<and> (script_location w1 = root @ [dir, file]
            \<longrightarrow> schema_path_of (script_location w2) = Inr (root @ [''supabase'', ''schema.sql''])
                \<and> take 2 (fst (main w2))
                    = [Getenv ''SUPABASE_DB_URL'',
                       PathExists (root @ [''supabase'', ''schema.sql''])])"
proof (intro conjI impI)
  from assms show "schema_path_of (script_location w1) = schema_path_of (script_location w2)"
    by simp
next
  assume "PathExists q1 \<in> set (fst (main w1)) \<and> PathExists q2 \<in> set (fst (main w2))"
  then have "schema_path_of (script_location w1) = Inr q1"
    and "schema_path_of (script_location w2) = Inr q2"
    by (auto simp: main_def import_and_apply_def apply_sql_cases url_not_set_def
        missing_dependency_def Let_def
        split: sum.splits option.splits if_splits prod.splits)
  with assms show "q1 = q2"
    by simp
next
  assume "script_location w1 = root @ [dir, file]"
  with assms have loc: "script_location w2 = root @ [dir, file]"
    by simp
  then show "schema_path_of (script_location w2) = Inr (root @ [''supabase'', ''schema.sql''])"
    by (simp add: schema_path_of_def parents_def)
  then show "take 2 (fst (main w2))
               = [Getenv ''SUPABASE_DB_URL'', PathExists (root @ [''supabase'', ''schema.sql''])]"
    by (cases "main w2")
       (auto simp: main_def import_and_apply_def apply_sql_cases url_not_set_def
          missing_dependency_def Let_def
          split: sum.splits option.splits if_splits prod.splits)
qed

theorem schema_path_from_script_location_witness:
  "script_location good_world = script_location other_cwd_world
   \<and> cwd good_world \<noteq> cwd other_cwd_world
   \<and> schema_path_of (script_location good_world)
       = schema_path_of (script_location other_cwd_world)
   \<and> PathExists repo_schema \<in> set (fst (main good_world))
   \<and> PathExists repo_schema \<in> set (fst (main other_cwd_world))
   \<and> script_location good_world = [''repo''] @ [''scripts'', ''supabase_setup.py'']
   \<and> schema_path_of (script_location other_cwd_world)
       = Inr ([''repo''] @ [''supabase'', ''schema.sql''])
   \<and> take 2 (fst (main other_cwd_world))
       = [Getenv ''SUPABASE_DB_URL'', PathExists ([''repo''] @ [''supabase'', ''schema.sql''])]"
proof -
  have s: "script_location good_world = script_location other_cwd_world"
    and d: "cwd good_world \<noteq> cwd other_cwd_world"
    and l: "script_location good_world = [''repo''] @ [''scripts'', ''supabase_setup.py'']"
    by (simp_all add: example_worlds)
  have "main other_cwd_world =
     after [Getenv ''SUPABASE_DB_URL'', PathExists repo_schema, ReadText repo_schema,
            ImportModule ''psycopg'', Print ''Applying supabase/schema.sql ...'']
       (case apply_sql other_cwd_world example_url example_sql of
          (t, Inl e) \<Rightarrow> (t, Inl e)
        | (t, Inr u) \<Rightarrow> (t @ [Print ''Done.''], Inr 0))"
    by (rule main_example_database) (simp_all add: example_worlds)
  then have e2: "PathExists repo_schema \<in> set (fst (main other_cwd_world))"
    by (cases "apply_sql other_cwd_world example_url example_sql") (simp split: sum.splits)
  have e1: "PathExists repo_schema \<in> set (fst (main good_world))"
    by (simp add: main_good_world)
  from schema_path_from_script_location [OF s, of repo_schema repo_schema
      "[''repo'']" "''scripts''" "''supabase_setup.py''"] s d l e1 e2
  show ?thesis by simp
qed

subsection \<open>The schema file that cannot be read\<close>

text \<open>
  C10. When the schema file exists and \<^verbatim>\<open>read_text\<close> raises (the file cannot be read, or
  its bytes are not UTF-8), the exception leaves \<^verbatim>\<open>main\<close> right after the read: \<^verbatim>\<open>main\<close>
  returns no code, so none of 1, 2 and 3, the process ends with the exception uncaught and
  nothing is printed. The connection string plays no part: the run is the same for every
  environment, also one in which the variable is not set.
\<close>

theorem unreadable_schema_raises:
  assumes "schema_path_of (script_location w) = Inr p"
    and "path_exists w p"
    and "read_text w p = Inl e"
  shows "main w = ([Getenv ''SUPABASE_DB_URL'', PathExists p, ReadText p], Inl e)
       \<and> run_script w = (fst (main w), Uncaught e)
       \<and> snd (main w) \<noteq> Inr 1 \<and> snd (main w) \<noteq> Inr 2 \<and> snd (main w) \<noteq> Inr 3
       \<and> snd (run_script w) \<noteq> Exited code
       \<and> printed (fst (main w)) = []
       \<and> main (w \<lparr> environ := env \<rparr>) = main w"
proof -
  let ?w' = "w \<lparr> environ := env \<rparr>"
  from assms have "schema_path_of (script_location ?w') = Inr p"
    and "path_exists ?w' p" and "read_text ?w' p = Inl e"
    by simp_all
  then have "main ?w' = ([Getenv ''SUPABASE_DB_URL'', PathExists p, ReadText p], Inl e)"
    by (rule main_unreadable)
  then show ?thesis
    by (simp add: main_unreadable [OF assms] run_script_def)
qed

theorem unreadable_schema_raises_witness:
  "schema_path_of (script_location undecodable_world) = Inr repo_schema
   \<and> path_exists undecodable_world repo_schema
   \<and> read_text undecodable_world repo_schema = Inl UnicodeDecodeError
   \<and> environ undecodable_world ''SUPABASE_DB_URL'' = None
   \<and> main undecodable_world =
       ([Getenv ''SUPABASE_DB_URL'', PathExists repo_schema, ReadText repo_schema],
        Inl UnicodeDecodeError)
   \<and> snd (run_script undecodable_world) = Uncaught UnicodeDecodeError
   \<and> printed (fst (main undecodable_world)) = []
   \<and> main (undecodable_world \<lparr> environ := [''SUPABASE_DB_URL'' \<mapsto> example_url] \<rparr>)
       = main undecodable_world"
proof -
  have p: "schema_path_of (script_location undecodable_world) = Inr repo_schema"
    by (simp add: example_worlds schema_path_of_repo)
  have x: "path_exists undecodable_world repo_schema"
    and r: "read_text undecodable_world repo_schema = Inl UnicodeDecodeError"
    and u: "environ undecodable_world ''SUPABASE_DB_URL'' = None"
    by (simp_all add: example_worlds)
  from unreadable_schema_raises [OF p x r, where env = "[''SUPABASE_DB_URL'' \<mapsto> example_url]"]
    p x r u
  show ?thesis by simp
qed

end
